theory Spec2Isabelle
  imports Complex_Main "HOL-Library.Word"
begin

section \<open>The WAV to header converter (\<open>src/loop-sampler/wav-to-header.py\<close>)\<close>

text \<open>
  The converter has one function, \<open>convert_wavs_to_header(files, pwm_resolution)\<close>. For each
  uploaded file it decodes the audio, averages the channels, normalises by the peak, maps the
  samples to \<open>int16\<close> values and formats them as a C array; then it writes one header text to
  a new temporary file.

  Numbers. Decoded amplitudes are rationals (integer PCM values or finite float values); NaN
  and infinities are outside the model. The \<open>float32\<close> arithmetic of NumPy is modelled by a
  rounding function \<open>rnd\<close> applied to the exact result of every \<open>float32\<close> operation, as
  IEEE 754 prescribes for finite values. The theorems hold for every rounding function with
  the two properties collected in \<open>float_rounding\<close>: it is monotone, and it leaves
  unchanged every integer and every half of an integer of magnitude up to \<open>2 ^ 24\<close>. Both
  hold of round-to-nearest \<open>float32\<close>, and of exact arithmetic (\<open>exact\<close>). Overflow of
  \<open>float32\<close> (a resolution or an amplitude beyond \<open>3.4e38\<close>) is outside the model. The
  resolution is an integer.
\<close>

subsection \<open>Floating point\<close>

definition float_rounding :: "(rat \<Rightarrow> rat) \<Rightarrow> bool" where
  "float_rounding rnd \<longleftrightarrow>
     (\<forall>x y. x \<le> y \<longrightarrow> rnd x \<le> rnd y) \<and>
     (\<forall>n::int. \<bar>n\<bar> \<le> 2 ^ 24 \<longrightarrow> rnd (of_int n) = of_int n \<and> rnd (of_int n / 2) = of_int n / 2)"

definition exact :: "rat \<Rightarrow> rat" where
  "exact x = x"

subsection \<open>Decoded audio and the errors of a conversion\<close>

text \<open>
  \<open>wavfile.read\<close> returns a one-dimensional array for a one-channel file and a
  frames-by-channels array otherwise. \<open>DecodeError\<close> stands for any exception of
  \<open>wavfile.read\<close>; \<open>ValueError\<close> is what \<open>np.max\<close> raises on an array of size zero;
  \<open>DivisionByZero\<close> is a float division by a zero peak, which the rationals cannot
  represent (NumPy would produce NaN or an infinity).
\<close>

datatype wav_data = Mono "rat list" | Multi "rat list list"

datatype error = DecodeError | ValueError | DivisionByZero

record wav_file =
  name :: string
  wav :: "wav_data option"

definition wavfile_read :: "wav_file \<Rightarrow> error + wav_data" where
  "wavfile_read file = (case wav file of None \<Rightarrow> Inl DecodeError | Some d \<Rightarrow> Inr d)"

subsection \<open>Per-file signal processing (source lines 25 to 33)\<close>

text \<open>
  \<open>data.mean(axis=1)\<close>: the mean of every frame over its channels, computed by NumPy.

  For a frame of two channels the model takes the exact mean \<open>(l + r) / 2\<close>, and the
  rounding to \<open>float32\<close> happens in \<open>astype_float32\<close>. This is what the code
  computes: for integer PCM samples NumPy works in \<open>float64\<close>, where the sum of two
  samples and its half are exact; for \<open>float32\<close> samples it rounds the sum to
  \<open>float32\<close> and halves it, and halving commutes with rounding. (Files of 64-bit float
  samples are outside the model.)

  For a frame of more than two channels the result depends on NumPy's accumulator (its
  precision differs for integer and float samples) and on the order of its additions, each
  of which rounds. The model does not fix them: the mean of such a frame is the parameter
  \<open>np_mean\<close>, and every theorem holds for every \<open>np_mean\<close>. \<open>exact_mean\<close> is the
  instance without rounding, used where a concrete input is evaluated.
\<close>

definition exact_mean :: "rat list \<Rightarrow> rat" where
  "exact_mean f = sum_list f / of_nat (length f)"

definition mean_axis1 :: "(rat list \<Rightarrow> rat) \<Rightarrow> rat list list \<Rightarrow> rat list" where
  "mean_axis1 np_mean frames =
     map (\<lambda>f. if length f \<le> 2 then sum_list f / of_nat (length f) else np_mean f) frames"

definition to_mono :: "(rat list \<Rightarrow> rat) \<Rightarrow> wav_data \<Rightarrow> rat list" where
  "to_mono np_mean d = (case d of Mono xs \<Rightarrow> xs | Multi frames \<Rightarrow> mean_axis1 np_mean frames)"

definition astype_float32 :: "(rat \<Rightarrow> rat) \<Rightarrow> rat list \<Rightarrow> rat list" where
  "astype_float32 rnd xs = map rnd xs"

text \<open>\<open>np.max(np.abs(data))\<close>; the absolute value of a float is exact.\<close>

definition np_max_abs :: "rat list \<Rightarrow> error + rat" where
  "np_max_abs xs = (case map abs xs of [] \<Rightarrow> Inl ValueError | y # ys \<Rightarrow> Inr (fold max ys y))"

definition true_divide :: "(rat \<Rightarrow> rat) \<Rightarrow> rat list \<Rightarrow> rat \<Rightarrow> error + rat list" where
  "true_divide rnd xs peak =
     (if peak = 0 then Inl DivisionByZero else Inr (map (\<lambda>x. rnd (x / peak)) xs))"

text \<open>\<open>if peak > 0: data /= peak\<close>\<close>

definition normalize :: "(rat \<Rightarrow> rat) \<Rightarrow> rat list \<Rightarrow> rat \<Rightarrow> error + rat list" where
  "normalize rnd xs peak = (if peak > 0 then true_divide rnd xs peak else Inr xs)"

text \<open>
  \<open>astype(np.int16)\<close> is the C conversion of a float to a 16-bit integer: the value is
  truncated towards zero to a 32-bit integer, of which the low 16 bits are kept; a value
  outside the 32-bit range converts to the 32-bit "integer indefinite" value \<open>- 2 ^ 31\<close>.
  So a value above 32767 does not saturate: it wraps around.
\<close>

definition trunc :: "rat \<Rightarrow> int" where
  "trunc x = (if 0 \<le> x then \<lfloor>x\<rfloor> else \<lceil>x\<rceil>)"

definition astype_int16 :: "rat \<Rightarrow> 16 word" where
  "astype_int16 x =
     (let t = trunc x;
          t32 = (if - (2 ^ 31) \<le> t \<and> t < 2 ^ 31 then t else - (2 ^ 31))
      in word_of_int t32)"

text \<open>\<open>np.clip(a, lo, hi)\<close> on an \<open>int16\<close> array, comparing the signed values.\<close>

definition np_clip :: "16 word \<Rightarrow> int \<Rightarrow> int \<Rightarrow> 16 word" where
  "np_clip v lo hi =
     (if sint v < lo then word_of_int lo else if hi < sint v then word_of_int hi else v)"

text \<open>
  Line 33: \<open>np.clip(((data + 1) / 2 * (pwm_resolution - 1)).astype(np.int16), 0, 32767)\<close>.
  The scalar \<open>pwm_resolution - 1\<close> is converted to \<open>float32\<close> before the product.
\<close>

definition scaled :: "(rat \<Rightarrow> rat) \<Rightarrow> int \<Rightarrow> rat list \<Rightarrow> 16 word list" where
  "scaled rnd pwm_resolution xs =
     map (\<lambda>x. np_clip
            (astype_int16 (rnd (rnd (rnd (x + 1) / 2) * rnd (of_int (pwm_resolution - 1)))))
            0 32767) xs"

text \<open>Lines 25 to 33 for one decoded file.\<close>

definition quantize ::
  "(rat list \<Rightarrow> rat) \<Rightarrow> (rat \<Rightarrow> rat) \<Rightarrow> int \<Rightarrow> wav_data \<Rightarrow> error + 16 word list" where
  "quantize np_mean rnd pwm_resolution d =
     (let xs = astype_float32 rnd (to_mono np_mean d) in
      case np_max_abs xs of
        Inl e \<Rightarrow> Inl e
      | Inr peak \<Rightarrow>
          (case normalize rnd xs peak of
             Inl e \<Rightarrow> Inl e
           | Inr ys \<Rightarrow> Inr (scaled rnd pwm_resolution ys)))"

subsection \<open>Text: \<open>str\<close>, \<open>join\<close>, slices of ten, identifiers\<close>

abbreviation NL :: string where
  "NL \<equiv> [CHR 0x0A]"

abbreviation DQUOTE :: string where
  "DQUOTE \<equiv> [CHR 0x22]"

definition digit :: "nat \<Rightarrow> char" where
  "digit d = ''0123456789'' ! d"

fun str_nat :: "nat \<Rightarrow> string" where
  "str_nat n = (if n < 10 then [digit n] else str_nat (n div 10) @ [digit (n mod 10)])"

declare str_nat.simps [simp del]

definition str_int :: "int \<Rightarrow> string" where
  "str_int i = (if i < 0 then ''-'' @ str_nat (nat (- i)) else str_nat (nat i))"

text \<open>\<open>str\<close> of an \<open>int16\<close> element prints its signed value.\<close>

definition str_int16 :: "16 word \<Rightarrow> string" where
  "str_int16 v = str_int (sint v)"

text \<open>\<open>sep.join(items)\<close>\<close>

fun join :: "string \<Rightarrow> string list \<Rightarrow> string" where
  "join sep [] = []"
| "join sep [x] = x"
| "join sep (x # y # ys) = x @ sep @ join sep (y # ys)"

text \<open>\<open>[scaled[i:i+10] for i in range(0, len(scaled), 10)]\<close>\<close>

function slices10 :: "'a list \<Rightarrow> 'a list list" where
  "slices10 xs = (if xs = [] then [] else take 10 xs # slices10 (drop 10 xs))"
  by pat_completeness auto
termination
  by (relation "measure length") auto

declare slices10.simps [simp del]

text \<open>
  \<open>os.path.basename\<close> keeps what follows the last slash. \<open>os.path.splitext(p)[0]\<close> cuts
  at the last dot, unless only dots come before it. \<open>replace(" ", "_")\<close> changes every space.
\<close>

definition basename :: "string \<Rightarrow> string" where
  "basename p = rev (takeWhile (\<lambda>c. c \<noteq> CHR ''/'') (rev p))"

definition splitext_root :: "string \<Rightarrow> string" where
  "splitext_root p =
     (if CHR ''.'' \<in> set p then
        (let root = rev (tl (dropWhile (\<lambda>c. c \<noteq> CHR ''.'') (rev p)))
         in if list_ex (\<lambda>c. c \<noteq> CHR ''.'') root then root else p)
      else p)"

definition replace_spaces :: "string \<Rightarrow> string" where
  "replace_spaces s = map (\<lambda>c. if c = CHR '' '' then CHR ''_'' else c) s"

definition array_name :: "wav_file \<Rightarrow> string" where
  "array_name file = replace_spaces (splitext_root (basename (name file)))"

subsection \<open>The loop over the files (source lines 21 to 41)\<close>

record loop_state =
  array_blocks :: "string list"
  sample_definitions :: "string list"
  sample_index :: nat

text \<open>Lines 35 to 39: the array literal of one file.\<close>

definition array_block :: "string \<Rightarrow> 16 word list \<Rightarrow> string" where
  "array_block nm sc =
     (let array_lines =
            [''const int16_t '' @ nm @ ''[] PROGMEM = {'']
            @ map (\<lambda>row. join '', '' (map str_int16 row)) (slices10 sc)
            @ [''};'' @ NL]
      in join NL array_lines)"

text \<open>Line 40: the manifest entry of one file.\<close>

definition sample_definition :: "nat \<Rightarrow> string \<Rightarrow> nat \<Rightarrow> string" where
  "sample_definition idx nm len =
     ''    { '' @ str_nat idx @ '', &'' @ nm @ ''[0], '' @ str_nat len @ '', ''
       @ DQUOTE @ nm @ DQUOTE @ '' },''"

definition loop_body ::
  "(rat list \<Rightarrow> rat) \<Rightarrow> (rat \<Rightarrow> rat) \<Rightarrow> int \<Rightarrow> loop_state \<Rightarrow> wav_file
     \<Rightarrow> error + loop_state" where
  "loop_body np_mean rnd pwm_resolution st file =
     (case wavfile_read file of
        Inl e \<Rightarrow> Inl e
      | Inr d \<Rightarrow>
          (case quantize np_mean rnd pwm_resolution d of
             Inl e \<Rightarrow> Inl e
           | Inr sc \<Rightarrow>
               Inr \<lparr> array_blocks = array_blocks st @ [array_block (array_name file) sc],
                     sample_definitions = sample_definitions st
                       @ [sample_definition (sample_index st) (array_name file) (length sc)],
                     sample_index = sample_index st + 1 \<rparr>))"

fun for_files ::
  "(rat list \<Rightarrow> rat) \<Rightarrow> (rat \<Rightarrow> rat) \<Rightarrow> int \<Rightarrow> wav_file list \<Rightarrow> loop_state
     \<Rightarrow> error + loop_state" where
  "for_files np_mean rnd pwm_resolution [] st = Inr st"
| "for_files np_mean rnd pwm_resolution (file # files) st =
     (case loop_body np_mean rnd pwm_resolution st file of
        Inl e \<Rightarrow> Inl e
      | Inr st' \<Rightarrow> for_files np_mean rnd pwm_resolution files st')"

subsection \<open>The header text and the temporary file (source lines 9 to 49)\<close>

definition struct_lines :: string where
  "struct_lines =
     ''struct SampleData {'' @ NL @
     ''    const uint16_t index;'' @ NL @
     ''    const int16_t* data;'' @ NL @
     ''    const uint32_t size;'' @ NL @
     ''    const char* name;'' @ NL @
     ''};'' @ NL @ NL"

definition header_lines :: "wav_file list \<Rightarrow> string list" where
  "header_lines files = [''#define NUM_SAMPLES '' @ str_nat (length files) @ NL @ NL, struct_lines]"

definition sample_def_block :: "string list \<Rightarrow> string" where
  "sample_def_block defs =
     ''SampleData sample[NUM_SAMPLES] = {'' @ NL @ join NL defs @ NL @ ''};'' @ NL @ NL"

definition header_output ::
  "(rat list \<Rightarrow> rat) \<Rightarrow> (rat \<Rightarrow> rat) \<Rightarrow> wav_file list \<Rightarrow> int \<Rightarrow> error + string" where
  "header_output np_mean rnd files pwm_resolution =
     (case for_files np_mean rnd pwm_resolution files
             \<lparr> array_blocks = [], sample_definitions = [], sample_index = 0 \<rparr> of
        Inl e \<Rightarrow> Inl e
      | Inr st \<Rightarrow>
          Inr (concat (header_lines files) @ sample_def_block (sample_definitions st)
               @ join NL (array_blocks st)))"

text \<open>
  The temporary directory is the list of the texts of the files created so far; the path
  returned for a new file is its position. The file is created after the loop, so an exception
  in the loop leaves the directory as it was. A failure to create or write the temporary file
  depends on the machine, not on the arguments, and is outside the model.
\<close>

definition convert_wavs_to_header ::
  "(rat list \<Rightarrow> rat) \<Rightarrow> (rat \<Rightarrow> rat) \<Rightarrow> wav_file list \<Rightarrow> int \<Rightarrow> string list
     \<Rightarrow> (error + nat) \<times> string list" where
  "convert_wavs_to_header np_mean rnd files pwm_resolution tmp =
     (case header_output np_mean rnd files pwm_resolution of
        Inl e \<Rightarrow> (Inl e, tmp)
      | Inr text \<Rightarrow> (Inr (length tmp), tmp @ [text]))"

subsection \<open>Frame counts\<close>

text \<open>
  The number of frames of a decoded file is the length of the first axis of the array that
  \<open>wavfile.read\<close> returns, whatever the number of channels. The manifest claims compare the
  \<open>size\<close> field with it.
\<close>

definition frame_count :: "wav_data \<Rightarrow> nat" where
  "frame_count d = (case d of Mono xs \<Rightarrow> length xs | Multi frames \<Rightarrow> length frames)"

definition file_frames :: "wav_file \<Rightarrow> nat" where
  "file_frames f = (case wav f of None \<Rightarrow> 0 | Some d \<Rightarrow> frame_count d)"

section \<open>Properties\<close>

subsection \<open>Rounding, peak and range lemmas\<close>

lemma float_rounding_exact: "float_rounding exact"
  by (simp add: float_rounding_def exact_def)

lemma rnd_mono: "float_rounding rnd \<Longrightarrow> x \<le> y \<Longrightarrow> rnd x \<le> rnd y"
  by (simp add: float_rounding_def)

lemma rnd_of_int: "float_rounding rnd \<Longrightarrow> \<bar>n\<bar> \<le> 2 ^ 24 \<Longrightarrow> rnd (of_int n) = of_int n"
  by (simp add: float_rounding_def)

lemma rnd_half: "float_rounding rnd \<Longrightarrow> \<bar>n\<bar> \<le> 2 ^ 24 \<Longrightarrow> rnd (of_int n / 2) = of_int n / 2"
  by (simp add: float_rounding_def)

lemma rnd_small:
  assumes "float_rounding rnd"
  shows "rnd 0 = 0" and "rnd 1 = 1" and "rnd (- 1) = - 1" and "rnd 2 = 2" and "rnd (1 / 2) = 1 / 2"
  using rnd_of_int [OF assms, of 0] rnd_of_int [OF assms, of 1] rnd_of_int [OF assms, of "- 1"]
    rnd_of_int [OF assms, of 2] rnd_half [OF assms, of 1]
  by simp_all

lemma fold_max_ge: "(y::rat) \<le> fold max ys y \<and> (\<forall>x\<in>set ys. x \<le> fold max ys y)"
proof (induction ys arbitrary: y)
  case Nil
  show ?case by simp
next
  case (Cons a ys)
  have "max a y \<le> fold max ys (max a y)" and "\<forall>x\<in>set ys. x \<le> fold max ys (max a y)"
    using Cons.IH [of "max a y"] by simp_all
  then show ?case by auto
qed

lemma np_max_abs_ge: "np_max_abs xs = Inr peak \<Longrightarrow> x \<in> set xs \<Longrightarrow> \<bar>x\<bar> \<le> peak"
proof -
  assume a: "np_max_abs xs = Inr peak" and x: "x \<in> set xs"
  from a obtain y ys where m: "map abs xs = y # ys" and p: "peak = fold max ys y"
    by (auto simp: np_max_abs_def split: list.splits)
  from x have "\<bar>x\<bar> \<in> set (map abs xs)" by simp
  then have "\<bar>x\<bar> = y \<or> \<bar>x\<bar> \<in> set ys" by (simp add: m)
  then show ?thesis using fold_max_ge [of y ys] p by auto
qed

lemma np_max_abs_Inr_iff: "(\<exists>peak. np_max_abs xs = Inr peak) \<longleftrightarrow> xs \<noteq> []"
  by (cases xs) (simp_all add: np_max_abs_def)

lemma normalize_unit:
  assumes fr: "float_rounding rnd" and pk: "np_max_abs xs = Inr peak"
    and nm: "normalize rnd xs peak = Inr ys" and y: "y \<in> set ys"
  shows "- 1 \<le> y \<and> y \<le> 1"
proof (cases "0 < peak")
  case True
  with nm have "ys = map (\<lambda>x. rnd (x / peak)) xs"
    by (simp add: normalize_def true_divide_def)
  with y obtain x where x: "x \<in> set xs" and yx: "y = rnd (x / peak)" by auto
  have "\<bar>x\<bar> \<le> peak" using np_max_abs_ge [OF pk x] .
  then have "- 1 \<le> x / peak" and "x / peak \<le> 1"
    using True by (simp_all add: pos_le_divide_eq pos_divide_le_eq abs_le_iff)
  then have "rnd (- 1) \<le> rnd (x / peak)" and "rnd (x / peak) \<le> rnd 1"
    using rnd_mono [OF fr] by blast+
  then show ?thesis using rnd_small [OF fr] yx by simp
next
  case False
  with nm have "ys = xs" by (simp add: normalize_def)
  with y have "\<bar>y\<bar> \<le> peak" using np_max_abs_ge [OF pk] by blast
  with False show ?thesis by linarith
qed

lemma affine_range:
  assumes fr: "float_rounding rnd" and r: "1 \<le> res" "res \<le> 2 ^ 24"
    and y: "- 1 \<le> y" "y \<le> 1"
  shows "0 \<le> rnd (rnd (rnd (y + 1) / 2) * rnd (of_int (res - 1)))"
    and "rnd (rnd (rnd (y + 1) / 2) * rnd (of_int (res - 1))) \<le> of_int (res - 1)"
proof -
  have R: "rnd (of_int (res - 1)) = of_int (res - 1)"
    using r by (intro rnd_of_int [OF fr]) simp
  have "rnd 0 \<le> rnd (y + 1)" and "rnd (y + 1) \<le> rnd 2"
    using y by (auto intro: rnd_mono [OF fr])
  then have a: "0 \<le> rnd (y + 1)" "rnd (y + 1) \<le> 2"
    using rnd_small [OF fr] by simp_all
  then have "rnd 0 \<le> rnd (rnd (y + 1) / 2)" and "rnd (rnd (y + 1) / 2) \<le> rnd 1"
    by (auto intro: rnd_mono [OF fr])
  then have b: "0 \<le> rnd (rnd (y + 1) / 2)" "rnd (rnd (y + 1) / 2) \<le> 1"
    using rnd_small [OF fr] by simp_all
  have c: "(0::rat) \<le> of_int (res - 1)" using r by simp
  have "0 \<le> rnd (rnd (y + 1) / 2) * of_int (res - 1)"
    using b(1) c by (rule mult_nonneg_nonneg)
  moreover have "rnd (rnd (y + 1) / 2) * of_int (res - 1) \<le> of_int (res - 1)"
    using mult_right_mono [OF b(2) c] by simp
  ultimately have "rnd 0 \<le> rnd (rnd (rnd (y + 1) / 2) * of_int (res - 1))"
    and "rnd (rnd (rnd (y + 1) / 2) * of_int (res - 1)) \<le> rnd (of_int (res - 1))"
    by (auto intro: rnd_mono [OF fr])
  then show "0 \<le> rnd (rnd (rnd (y + 1) / 2) * rnd (of_int (res - 1)))"
    and "rnd (rnd (rnd (y + 1) / 2) * rnd (of_int (res - 1))) \<le> of_int (res - 1)"
    using rnd_small(1) [OF fr] R by simp_all
qed

lemma sint_astype_int16:
  assumes "0 \<le> x" and "x < 32768"
  shows "sint (astype_int16 x) = \<lfloor>x\<rfloor>"
proof -
  have "0 \<le> \<lfloor>x\<rfloor>" using assms(1) by simp
  moreover have "\<lfloor>x\<rfloor> < 32768" using assms(2) by (simp add: floor_less_iff)
  ultimately show ?thesis
    using assms(1)
    by (simp add: astype_int16_def trunc_def Let_def sint_sbintrunc' signed_take_bit_int_eq_self)
qed

lemma np_clip_id: "0 \<le> sint w \<Longrightarrow> np_clip w 0 32767 = w"
  using sint_lt [of w] by (simp add: np_clip_def)

lemma quantize_Inr_scaled:
  assumes "quantize np_mean rnd res d = Inr sc"
  shows "\<exists>ys. length ys = length (to_mono np_mean d) \<and> sc = scaled rnd res ys"
proof -
  from assms obtain peak ys
    where nm: "normalize rnd (astype_float32 rnd (to_mono np_mean d)) peak = Inr ys"
      and sc: "sc = scaled rnd res ys"
    by (auto simp: quantize_def Let_def split: sum.splits)
  from nm have "length ys = length (to_mono np_mean d)"
    by (auto simp: normalize_def true_divide_def astype_float32_def split: if_splits)
  with sc show ?thesis by blast
qed

lemma np_clip_range: "0 \<le> sint (np_clip w 0 32767) \<and> sint (np_clip w 0 32767) \<le> 32767"
  by (simp add: np_clip_def)

lemma quantize_exact_ramp: "quantize exact_mean exact 4096 (Mono [- 1, 0, 1]) = Inr [0, 2047, 4095]"
  by code_simp

subsection \<open>C3: every quantized value is between 0 and 32767\<close>

text \<open>
  C3. For every decoded file and every resolution, every value of the array \<open>scaled\<close> is
  at least 0 and at most 32767, read as a signed 16-bit number. No condition on the
  resolution or on the rounding is needed: the clip is the last operation.
\<close>

theorem quantized_values_within_int16_clip:
  "quantize np_mean rnd pwm_resolution d = Inr sc \<Longrightarrow> \<forall>v\<in>set sc. 0 \<le> sint v \<and> sint v \<le> 32767"
proof -
  assume "quantize np_mean rnd pwm_resolution d = Inr sc"
  then obtain ys where "sc = scaled rnd pwm_resolution ys"
    using quantize_Inr_scaled by blast
  then show ?thesis
    using np_clip_range by (auto simp: scaled_def)
qed

theorem quantized_values_within_int16_clip_witness:
  "quantize exact_mean exact 70000 (Mono [- 1, 0, 1]) = Inr [0, 0, 4463]
   \<and> 0 \<le> sint (4463 :: 16 word) \<and> sint (4463 :: 16 word) \<le> 32767"
proof -
  have q: "quantize exact_mean exact 70000 (Mono [- 1, 0, 1]) = Inr [0, 0, 4463]"
    by code_simp
  show ?thesis
    using quantized_values_within_int16_clip [OF q] q by simp
qed

subsection \<open>C4: values stay below the resolution\<close>

text \<open>
  C4 as stated, for every resolution up to 32768, fails at resolution 0: the full-scale
  sample maps to \<open>(1 + 1) / 2 * (0 - 1) = - 1\<close>, which the clip raises to 0, and 0 is
  not in the empty range from 0 to \<open>- 1\<close>. All operations at this input are exact in
  \<open>float32\<close>.
\<close>

theorem resolution_zero_value_above_range:
  "(0::int) \<le> 32768 \<and> quantize exact_mean exact 0 (Mono [1]) = Inr [0]
   \<and> \<not> sint (0 :: 16 word) \<le> 0 - 1"
  by code_simp

text \<open>
  C4, amended. For every resolution from 1 to 32768, every decoded file and every rounding
  that satisfies \<open>float_rounding\<close>, every value of \<open>scaled\<close> lies between 0 and
  \<open>pwm_resolution - 1\<close>.
\<close>

theorem quantized_values_in_requested_range:
  assumes fr: "float_rounding rnd" and r: "1 \<le> pwm_resolution" "pwm_resolution \<le> 32768"
    and q: "quantize np_mean rnd pwm_resolution d = Inr sc"
  shows "\<forall>v\<in>set sc. 0 \<le> sint v \<and> sint v \<le> pwm_resolution - 1"
proof
  fix v assume v: "v \<in> set sc"
  from q obtain peak ys where pk: "np_max_abs (astype_float32 rnd (to_mono np_mean d)) = Inr peak"
    and nm: "normalize rnd (astype_float32 rnd (to_mono np_mean d)) peak = Inr ys"
    and sc: "sc = scaled rnd pwm_resolution ys"
    by (auto simp: quantize_def Let_def split: sum.splits)
  let ?f = "\<lambda>y. rnd (rnd (rnd (y + 1) / 2) * rnd (of_int (pwm_resolution - 1)))"
  from v sc obtain y where y: "y \<in> set ys" and vy: "v = np_clip (astype_int16 (?f y)) 0 32767"
    by (auto simp: scaled_def)
  have u: "- 1 \<le> y" "y \<le> 1" using normalize_unit [OF fr pk nm y] by simp_all
  have r24: "pwm_resolution \<le> 2 ^ 24" using r(2) by simp
  have lo: "0 \<le> ?f y" and hi: "?f y \<le> of_int (pwm_resolution - 1)"
    using affine_range [OF fr r(1) r24 u] by simp_all
  have "?f y < 32768" using hi r(2) by (simp add: order.strict_trans1 [OF hi])
  then have s: "sint (astype_int16 (?f y)) = \<lfloor>?f y\<rfloor>"
    using sint_astype_int16 [OF lo] by simp
  have "\<lfloor>?f y\<rfloor> \<le> \<lfloor>of_int (pwm_resolution - 1) :: rat\<rfloor>"
    using hi by (rule floor_mono)
  then have fl: "0 \<le> \<lfloor>?f y\<rfloor>" "\<lfloor>?f y\<rfloor> \<le> pwm_resolution - 1"
    using lo by simp_all
  have "v = astype_int16 (?f y)" using vy np_clip_id s fl(1) by simp
  then show "0 \<le> sint v \<and> sint v \<le> pwm_resolution - 1" using s fl by simp
qed

theorem quantized_values_in_requested_range_witness:
  "quantize exact_mean exact 4096 (Mono [- 1, 0, 1]) = Inr [0, 2047, 4095]
   \<and> sint (4095 :: 16 word) \<le> 4096 - 1"
proof -
  have "\<forall>v\<in>set [0, 2047, 4095 :: 16 word]. 0 \<le> sint v \<and> sint v \<le> 4096 - 1"
    by (rule quantized_values_in_requested_range [OF float_rounding_exact _ _ quantize_exact_ramp])
      simp_all
  then show ?thesis using quantize_exact_ramp by simp
qed

subsection \<open>C10: the empty batch\<close>

text \<open>
  C10. For the empty list of files the conversion succeeds, creates one temporary file and
  its text is the line \<open>#define NUM_SAMPLES 0\<close>, a blank line, the struct definition, and
  the manifest \<open>SampleData sample[NUM_SAMPLES] = {\<close>, an empty line, \<open>};\<close> and a blank
  line; no data array follows.
\<close>

theorem empty_batch_header:
  "convert_wavs_to_header np_mean rnd [] pwm_resolution tmp =
     (Inr (length tmp),
      tmp @ [''#define NUM_SAMPLES 0'' @ NL @ NL @
             ''struct SampleData {'' @ NL @
             ''    const uint16_t index;'' @ NL @
             ''    const int16_t* data;'' @ NL @
             ''    const uint32_t size;'' @ NL @
             ''    const char* name;'' @ NL @
             ''};'' @ NL @ NL @
             ''SampleData sample[NUM_SAMPLES] = {'' @ NL @ NL @ ''};'' @ NL @ NL])"
  by (simp add: convert_wavs_to_header_def header_output_def header_lines_def struct_lines_def
      sample_def_block_def str_nat.simps digit_def)

subsection \<open>C1: a full-scale sample above resolution 32768\<close>

text \<open>
  A normalized full-scale sample is 1. For resolutions from 1 to 32768 it maps to
  \<open>resolution - 1\<close>, as the affine map says.
\<close>

lemma full_scale_below_32768:
  assumes fr: "float_rounding rnd" and r: "1 \<le> res" "res \<le> 32768"
  shows "map sint (scaled rnd res [1]) = [res - 1]"
proof -
  have b: "\<bar>res - 1\<bar> \<le> 2 ^ 24" using r by simp
  have R: "rnd (of_int (res - 1)) = of_int (res - 1)" using rnd_of_int [OF fr b] .
  have v: "rnd (rnd (rnd 2 / 2) * rnd (of_int (res - 1))) = of_int (res - 1)"
    using R by (simp add: rnd_small [OF fr] del: of_int_diff)
  have lo: "(0::rat) \<le> of_int (res - 1)" and hi: "(of_int (res - 1) :: rat) < 32768"
    using r by simp_all
  have s: "sint (astype_int16 (of_int (res - 1))) = res - 1"
    using sint_astype_int16 [OF lo hi] by simp
  then have "np_clip (astype_int16 (of_int (res - 1))) 0 32767 = astype_int16 (of_int (res - 1))"
    using r np_clip_id by simp
  then show ?thesis using s by (simp add: scaled_def v del: of_int_diff)
qed

text \<open>
  C1 says that a full-scale sample quantizes to \<open>min (resolution - 1) 32767\<close> for every
  resolution, also above 32768. The source casts to \<open>int16\<close> before it clips, so the upper
  bound 32767 of the clip never acts: at resolution 65536 the full-scale sample maps to
  65535, the cast wraps it to \<open>- 1\<close> and the clip raises it to 0, where the claim says
  32767. This holds for every rounding that satisfies \<open>float_rounding\<close>.
\<close>

theorem full_scale_wraps_at_65536:
  assumes fr: "float_rounding rnd"
  shows "quantize np_mean rnd 65536 (Mono [1]) = Inr [0]"
proof -
  have r: "rnd 65535 = 65535" using rnd_of_int [OF fr, of 65535] by simp
  have t: "trunc 65535 = 65535" by (simp add: trunc_def)
  have c: "np_clip (astype_int16 65535) 0 32767 = 0"
    by (simp add: astype_int16_def t np_clip_def)
  show ?thesis
    by (simp add: quantize_def to_mono_def astype_float32_def np_max_abs_def normalize_def
        true_divide_def scaled_def rnd_small [OF fr] r c)
qed

theorem full_scale_wraps_at_65536_witness:
  "quantize exact_mean exact 65536 (Mono [1]) = Inr [0]"
  using full_scale_wraps_at_65536 [OF float_rounding_exact] .

subsection \<open>C5: silence\<close>

text \<open>
  C5 as stated, for every resolution, fails at both ends. At resolution 100000 the midpoint
  \<open>\<lfloor>(0 + 1) / 2 * 99999\<rfloor> = 49999\<close> does not fit the 16-bit output and the emitted value
  is 0; at resolution 0 the midpoint is \<open>\<lfloor>- 1 / 2\<rfloor> = - 1\<close> and the emitted value is 0.
  All operations at these inputs are exact in \<open>float32\<close>.
\<close>

theorem silence_midpoint_fails_outside_range:
  "quantize exact_mean exact 100000 (Mono [0]) = Inr [0]
   \<and> \<lfloor>(0 + 1) / 2 * of_int (100000 - 1) :: rat\<rfloor> = 49999
   \<and> sint (0 :: 16 word) \<noteq> 49999
   \<and> quantize exact_mean exact 0 (Mono [0]) = Inr [0]
   \<and> \<lfloor>(0 + 1) / 2 * of_int (0 - 1) :: rat\<rfloor> = - 1
   \<and> sint (0 :: 16 word) \<noteq> - 1"
  by code_simp

lemma fold_max_zeros: "fold max (replicate k (0::rat)) 0 = 0"
  by (induction k) simp_all

lemma np_max_abs_zeros: "0 < n \<Longrightarrow> np_max_abs (replicate n 0) = Inr 0"
  by (cases n) (simp_all add: np_max_abs_def fold_max_zeros del: fold_replicate)

lemma quantize_silence:
  assumes fr: "float_rounding rnd" and z: "to_mono np_mean d = replicate n 0" and n: "0 < n"
  shows "quantize np_mean rnd res d =
           Inr (replicate n (np_clip (astype_int16 (rnd (1 / 2 * rnd (of_int (res - 1))))) 0 32767))"
  using n
  by (simp add: quantize_def z astype_float32_def rnd_small [OF fr] np_max_abs_zeros
      normalize_def scaled_def)

lemma quantize_no_division_by_zero: "quantize np_mean rnd res d \<noteq> Inl DivisionByZero"
  by (auto simp: quantize_def Let_def np_max_abs_def normalize_def true_divide_def
      split: sum.splits list.splits if_splits)

text \<open>
  C5, amended. For every input whose (channel-averaged) amplitudes are all zero, and every
  resolution, the conversion does not fail with a division by zero (the peak is 0, so the
  division is skipped); when the input has at least one frame its conversion succeeds and
  all emitted values are equal; and for every resolution from 1 to 65536 that value is
  \<open>\<lfloor>(0 + 1) / 2 * (resolution - 1)\<rfloor>\<close>, 2047 for resolution 4096.
\<close>

theorem silence_quantizes_to_midpoint:
  assumes fr: "float_rounding rnd" and z: "to_mono np_mean d = replicate n 0"
  shows "quantize np_mean rnd pwm_resolution d \<noteq> Inl DivisionByZero
         \<and> (0 < n \<longrightarrow>
              (\<exists>c. quantize np_mean rnd pwm_resolution d = Inr (replicate n c)
                 \<and> (1 \<le> pwm_resolution \<and> pwm_resolution \<le> 65536
                      \<longrightarrow> sint c = \<lfloor>(0 + 1) / 2 * of_int (pwm_resolution - 1) :: rat\<rfloor>)))"
proof (intro conjI impI)
  show "quantize np_mean rnd pwm_resolution d \<noteq> Inl DivisionByZero"
    by (rule quantize_no_division_by_zero)
next
  assume n: "0 < n"
  let ?m = "rnd (1 / 2 * rnd (of_int (pwm_resolution - 1)))"
  let ?c = "np_clip (astype_int16 ?m) 0 32767"
  have q: "quantize np_mean rnd pwm_resolution d = Inr (replicate n ?c)"
    using quantize_silence [OF fr z n] .
  have "sint ?c = \<lfloor>(0 + 1) / 2 * of_int (pwm_resolution - 1) :: rat\<rfloor>"
    if r: "1 \<le> pwm_resolution" "pwm_resolution \<le> 65536"
  proof -
    have b: "\<bar>pwm_resolution - 1\<bar> \<le> 2 ^ 24" using r by simp
    have "rnd (of_int (pwm_resolution - 1)) = of_int (pwm_resolution - 1)"
      using rnd_of_int [OF fr b] .
    moreover have "rnd (of_int (pwm_resolution - 1) / 2) = of_int (pwm_resolution - 1) / 2"
      using rnd_half [OF fr b] .
    ultimately have m: "?m = of_int (pwm_resolution - 1) / 2" by (simp del: of_int_diff)
    have lo: "0 \<le> ?m" and hi: "?m < 32768" using r unfolding m by simp_all
    have s: "sint (astype_int16 ?m) = \<lfloor>?m\<rfloor>" using sint_astype_int16 [OF lo hi] .
    moreover have "0 \<le> \<lfloor>?m\<rfloor>" using lo by simp
    ultimately have "?c = astype_int16 ?m" using np_clip_id by simp
    then show ?thesis using s unfolding m by simp
  qed
  with q show "\<exists>c. quantize np_mean rnd pwm_resolution d = Inr (replicate n c)
                 \<and> (1 \<le> pwm_resolution \<and> pwm_resolution \<le> 65536
                      \<longrightarrow> sint c = \<lfloor>(0 + 1) / 2 * of_int (pwm_resolution - 1) :: rat\<rfloor>)"
    by blast
qed

theorem silence_quantizes_to_midpoint_witness:
  "quantize exact_mean exact 4096 (Multi [[0, 0], [0, 0], [0, 0]]) \<noteq> Inl DivisionByZero
   \<and> (\<exists>c. quantize exact_mean exact 4096 (Multi [[0, 0], [0, 0], [0, 0]]) = Inr (replicate 3 c)
          \<and> sint c = 2047)"
proof -
  have z: "to_mono exact_mean (Multi [[0, 0], [0, 0], [0, 0]]) = replicate 3 0"
    by (simp add: to_mono_def mean_axis1_def numeral_3_eq_3)
  have f: "\<lfloor>(0 + 1) / 2 * of_int (4096 - 1) :: rat\<rfloor> = 2047"
    using floor_divide_of_int_eq [of 4095 2, where ?'a = rat] by simp
  show ?thesis
    using silence_quantizes_to_midpoint [OF float_rounding_exact z, of 4096] f by simp
qed

subsection \<open>C6: stereo is averaged to mono\<close>

text \<open>With \<open>exact_mean\<close> for \<open>np_mean\<close> every frame gets its exact mean.\<close>

lemma mean_axis1_exact_mean:
  "mean_axis1 exact_mean frames = map (\<lambda>f. sum_list f / of_nat (length f)) frames"
  by (simp add: mean_axis1_def exact_mean_def)

lemma to_mono_stereo:
  "to_mono np_mean (Multi (map2 (\<lambda>l r. [l, r]) L R)) = map2 (\<lambda>l r. (l + r) / 2) L R"
  by (simp add: to_mono_def mean_axis1_def case_prod_unfold)

lemma np_max_abs_Max:
  "np_max_abs xs = (if xs = [] then Inl ValueError else Inr (Max (set (map abs xs))))"
proof (cases xs)
  case Nil
  then show ?thesis by (simp add: np_max_abs_def)
next
  case (Cons x xs')
  have "fold max (map abs xs') \<bar>x\<bar> = Max (set (\<bar>x\<bar> # map abs xs'))"
    by (rule Max.set_eq_fold [symmetric])
  then show ?thesis using Cons by (simp add: np_max_abs_def)
qed

lemma quantize_explicit:
  "quantize np_mean rnd res d =
     (let ms = map rnd (to_mono np_mean d) in
      if ms = [] then Inl ValueError
      else let peak = Max (set (map abs ms)) in
        Inr (map (\<lambda>m. np_clip
                   (astype_int16
                      (rnd (rnd (rnd ((if 0 < peak then rnd (m / peak) else m) + 1) / 2)
                            * rnd (of_int (res - 1)))))
                   0 32767) ms))"
  by (auto simp: quantize_def Let_def astype_float32_def np_max_abs_Max normalize_def
      true_divide_def scaled_def)

lemma quantize_mono_2_0_m2:
  assumes fr: "float_rounding rnd"
  shows "quantize np_mean rnd 4096 (Mono [2, 0, - 2]) = Inr [4095, 2047, 0]"
proof -
  have r: "rnd 4095 = 4095" "rnd (4095 / 2) = 4095 / 2" "rnd (- 2) = - 2"
    using rnd_of_int [OF fr, of 4095] rnd_half [OF fr, of 4095] rnd_of_int [OF fr, of "- 2"]
    by simp_all
  have f: "\<lfloor>4095 / 2 :: rat\<rfloor> = 2047"
    using floor_divide_of_int_eq [of 4095 2, where ?'a = rat] by simp
  have a: "astype_int16 0 = 0" "astype_int16 (4095 / 2) = 2047" "astype_int16 4095 = 4095"
    by (simp_all add: astype_int16_def trunc_def f)
  have c: "np_clip 0 0 32767 = 0" "np_clip 2047 0 32767 = 2047" "np_clip 4095 0 32767 = 4095"
    by (simp_all add: np_clip_def)
  show ?thesis
    by (simp add: quantize_def to_mono_def astype_float32_def np_max_abs_def normalize_def
        true_divide_def scaled_def rnd_small [OF fr] r a c)
qed

lemma quantize_mono_0_0:
  assumes fr: "float_rounding rnd"
  shows "quantize np_mean rnd 4096 (Mono [0, 0]) = Inr [2047, 2047]"
proof -
  have r: "rnd 4095 = 4095" "rnd (4095 / 2) = 4095 / 2"
    using rnd_of_int [OF fr, of 4095] rnd_half [OF fr, of 4095] by simp_all
  have f: "\<lfloor>4095 / 2 :: rat\<rfloor> = 2047"
    using floor_divide_of_int_eq [of 4095 2, where ?'a = rat] by simp
  have a: "astype_int16 (4095 / 2) = 2047"
    by (simp add: astype_int16_def trunc_def f)
  have c: "np_clip 2047 0 32767 = 2047"
    by (simp add: np_clip_def)
  show ?thesis
    by (simp add: quantize_def to_mono_def astype_float32_def np_max_abs_def normalize_def
        true_divide_def scaled_def rnd_small [OF fr] r a c)
qed

lemma quantize_multi_as_mono:
  "quantize np_mean rnd res (Multi frames) = quantize np_mean rnd res (Mono (mean_axis1 np_mean frames))"
  by (simp add: quantize_def to_mono_def)

text \<open>
  C6. For every two-channel input with channels \<open>L\<close> and \<open>R\<close> (frame \<open>i\<close> is
  \<open>[L ! i, R ! i]\<close>): the mono signal is the per-frame mean \<open>(L ! i + R ! i) / 2\<close>; and
  the emitted values are computed from these means alone, in this order: the means are
  rounded to \<open>float32\<close>, the peak is the largest of their absolute values, they are
  divided by the peak when it is positive, and then mapped, cast and clipped (with no frame
  the conversion fails). So the averaging comes before normalisation and quantization.
  \<open>L = [1, - 1]\<close>, \<open>R = [- 1, 1]\<close> collapse to \<open>[0, 0]\<close> and quantize to
  \<open>[2047, 2047]\<close> at resolution 4096; \<open>L = [1, 1, - 3]\<close>, \<open>R = [3, - 1, - 1]\<close>
  collapse to \<open>[2, 0, - 2]\<close> and quantize to \<open>[4095, 2047, 0]\<close>.
\<close>

theorem stereo_collapsed_by_mean:
  assumes fr: "float_rounding rnd"
  shows "to_mono np_mean (Multi (map2 (\<lambda>l r. [l, r]) L R)) = map2 (\<lambda>l r. (l + r) / 2) L R
   \<and> quantize np_mean rnd pwm_resolution (Multi (map2 (\<lambda>l r. [l, r]) L R)) =
       (let ms = map2 (\<lambda>l r. rnd ((l + r) / 2)) L R in
        if ms = [] then Inl ValueError
        else let peak = Max (set (map abs ms)) in
          Inr (map (\<lambda>m. np_clip
                     (astype_int16
                        (rnd (rnd (rnd ((if 0 < peak then rnd (m / peak) else m) + 1) / 2)
                              * rnd (of_int (pwm_resolution - 1)))))
                     0 32767) ms))
   \<and> to_mono np_mean (Multi (map2 (\<lambda>l r. [l, r]) [1, - 1] [- 1, 1])) = [0, 0]
   \<and> quantize np_mean rnd 4096 (Multi (map2 (\<lambda>l r. [l, r]) [1, - 1] [- 1, 1])) = Inr [2047, 2047]
   \<and> quantize np_mean rnd 4096 (Multi (map2 (\<lambda>l r. [l, r]) [1, 1, - 3] [3, - 1, - 1]))
       = Inr [4095, 2047, 0]"
proof (intro conjI)
  show "to_mono np_mean (Multi (map2 (\<lambda>l r. [l, r]) L R)) = map2 (\<lambda>l r. (l + r) / 2) L R"
    by (rule to_mono_stereo)
next
  have "map rnd (map2 (\<lambda>l r. (l + r) / 2) L R) = map2 (\<lambda>l r. rnd ((l + r) / 2)) L R"
    by (simp add: case_prod_unfold)
  then show "quantize np_mean rnd pwm_resolution (Multi (map2 (\<lambda>l r. [l, r]) L R)) =
       (let ms = map2 (\<lambda>l r. rnd ((l + r) / 2)) L R in
        if ms = [] then Inl ValueError
        else let peak = Max (set (map abs ms)) in
          Inr (map (\<lambda>m. np_clip
                     (astype_int16
                        (rnd (rnd (rnd ((if 0 < peak then rnd (m / peak) else m) + 1) / 2)
                              * rnd (of_int (pwm_resolution - 1)))))
                     0 32767) ms))"
    unfolding quantize_explicit [of np_mean rnd pwm_resolution "Multi (map2 (\<lambda>l r. [l, r]) L R)"]
      to_mono_stereo
    by (simp only:)
next
  show "to_mono np_mean (Multi (map2 (\<lambda>l r. [l, r]) [1, - 1] [- 1, 1])) = [0, 0]"
    by (simp add: to_mono_def mean_axis1_def)
next
  have "mean_axis1 np_mean (map2 (\<lambda>l r. [l, r]) [1, - 1] [- 1, 1]) = [0, 0]"
    by (simp add: mean_axis1_def)
  then show "quantize np_mean rnd 4096 (Multi (map2 (\<lambda>l r. [l, r]) [1, - 1] [- 1, 1]))
       = Inr [2047, 2047]"
    using quantize_mono_0_0 [OF fr, of np_mean]
    by (simp only: quantize_multi_as_mono)
next
  have "mean_axis1 np_mean (map2 (\<lambda>l r. [l, r]) [1, 1, - 3] [3, - 1, - 1]) = [2, 0, - 2]"
    by (simp add: mean_axis1_def)
  then show "quantize np_mean rnd 4096 (Multi (map2 (\<lambda>l r. [l, r]) [1, 1, - 3] [3, - 1, - 1]))
       = Inr [4095, 2047, 0]"
    using quantize_mono_2_0_m2 [OF fr, of np_mean]
    by (simp only: quantize_multi_as_mono)
qed

theorem stereo_collapsed_by_mean_witness:
  "to_mono exact_mean (Multi [[1, 3], [1, - 1], [- 3, - 1]]) = [2, 0, - 2]
   \<and> quantize exact_mean exact 4096 (Multi [[1, 3], [1, - 1], [- 3, - 1]]) = Inr [4095, 2047, 0]
   \<and> to_mono exact_mean (Multi [[1, - 1], [- 1, 1]]) = [0, 0]
   \<and> quantize exact_mean exact 4096 (Multi [[1, - 1], [- 1, 1]]) = Inr [2047, 2047]"
proof -
  note t = stereo_collapsed_by_mean
    [OF float_rounding_exact, of exact_mean "[1, 1, - 3]" "[3, - 1, - 1]" 4096]
  have f: "map2 (\<lambda>l r. [l, r]) [1, 1, - 3] [3, - 1, - 1] = [[1, 3], [1, - 1], [- 3, - 1 :: rat]]"
    "map2 (\<lambda>l r. [l, r]) [1, - 1] [- 1, 1] = [[1, - 1], [- 1, 1 :: rat]]"
    "map2 (\<lambda>l r. (l + r) / 2) [1, 1, - 3] [3, - 1, - 1] = [2, 0, - 2 :: rat]"
    by simp_all
  have "to_mono exact_mean (Multi [[1, 3], [1, - 1], [- 3, - 1]]) = [2, 0, - 2]"
    using t [THEN conjunct1] unfolding f .
  moreover have "quantize exact_mean exact 4096 (Multi [[1, 3], [1, - 1], [- 3, - 1]])
                   = Inr [4095, 2047, 0]"
    using t [THEN conjunct2, THEN conjunct2, THEN conjunct2, THEN conjunct2] unfolding f .
  moreover have "to_mono exact_mean (Multi [[1, - 1], [- 1, 1]]) = [0, 0]"
    using t [THEN conjunct2, THEN conjunct2, THEN conjunct1] unfolding f .
  moreover have "quantize exact_mean exact 4096 (Multi [[1, - 1], [- 1, 1]]) = Inr [2047, 2047]"
    using t [THEN conjunct2, THEN conjunct2, THEN conjunct2, THEN conjunct1] unfolding f .
  ultimately show ?thesis by blast
qed

text \<open>
  One more stereo input, with a peak that is not a sample of either channel; every
  \<open>float32\<close> operation on it is exact.
\<close>

lemma stereo_three_frames:
  "quantize exact_mean exact 4096 (Multi [[1, 3], [4, 0], [- 4, - 4]]) = Inr [3071, 3071, 0]"
  by code_simp

subsection \<open>C8: the three-sample ramp\<close>

text \<open>
  C8. The mono input \<open>[- 1, 0, 1]\<close> at resolution 4096 quantizes to \<open>[0, 2047, 4095]\<close>,
  and the three values are at most 32767; for every rounding that satisfies
  \<open>float_rounding\<close>.
\<close>

theorem three_sample_ramp:
  assumes fr: "float_rounding rnd"
  shows "\<exists>sc. quantize np_mean rnd 4096 (Mono [- 1, 0, 1]) = Inr sc
           \<and> map sint sc = [0, 2047, 4095] \<and> list_all (\<lambda>v. sint v \<le> 32767) sc"
proof -
  have r: "rnd 4095 = 4095" "rnd (4095 / 2) = 4095 / 2"
    using rnd_of_int [OF fr, of 4095] rnd_half [OF fr, of 4095] by simp_all
  have f: "\<lfloor>4095 / 2 :: rat\<rfloor> = 2047"
    using floor_divide_of_int_eq [of 4095 2, where ?'a = rat] by simp
  have a: "astype_int16 0 = 0" "astype_int16 (4095 / 2) = 2047" "astype_int16 4095 = 4095"
    by (simp_all add: astype_int16_def trunc_def f)
  have c: "np_clip 0 0 32767 = 0" "np_clip 2047 0 32767 = 2047" "np_clip 4095 0 32767 = 4095"
    by (simp_all add: np_clip_def)
  have "quantize np_mean rnd 4096 (Mono [- 1, 0, 1]) = Inr [0, 2047, 4095]"
    by (simp add: quantize_def to_mono_def astype_float32_def np_max_abs_def normalize_def
        true_divide_def scaled_def rnd_small [OF fr] r a c)
  then show ?thesis by simp
qed

theorem three_sample_ramp_witness:
  "\<exists>sc. quantize exact_mean exact 4096 (Mono [- 1, 0, 1]) = Inr sc
           \<and> map sint sc = [0, 2047, 4095] \<and> list_all (\<lambda>v. sint v \<le> 32767) sc"
  using three_sample_ramp [OF float_rounding_exact] .

subsection \<open>C9: an undecodable file aborts the batch\<close>

lemma for_files_undecodable:
  "\<exists>f\<in>set files. wav f = None \<Longrightarrow> \<exists>e. for_files np_mean rnd res files st = Inl e"
proof (induction files arbitrary: st)
  case Nil
  then show ?case by simp
next
  case (Cons f files)
  show ?case
  proof (cases "loop_body np_mean rnd res st f")
    case (Inl e)
    then show ?thesis by simp
  next
    case (Inr st')
    then have "wav f \<noteq> None"
      by (auto simp: loop_body_def wavfile_read_def split: option.splits)
    with Cons.prems have "\<exists>f\<in>set files. wav f = None" by auto
    from Cons.IH [OF this, of st'] Inr show ?thesis by simp
  qed
qed

text \<open>
  C9. If \<open>wavfile.read\<close> fails on any file of the batch, the call fails and the temporary
  directory is what it was before the call: no file is created, also not for the files
  decoded before the failure.
\<close>

theorem undecodable_file_aborts_batch:
  assumes "\<exists>f\<in>set files. wav f = None"
  shows "\<exists>e. convert_wavs_to_header np_mean rnd files pwm_resolution tmp = (Inl e, tmp)"
proof -
  obtain e where
    "for_files np_mean rnd pwm_resolution files
       \<lparr> array_blocks = [], sample_definitions = [], sample_index = 0 \<rparr> = Inl e"
    using for_files_undecodable [OF assms] by blast
  then show ?thesis
    by (simp add: convert_wavs_to_header_def header_output_def)
qed

theorem undecodable_file_aborts_batch_witness:
  "convert_wavs_to_header exact_mean exact
     [\<lparr> name = ''kick.wav'', wav = Some (Mono [- 1, 0, 1]) \<rparr>,
      \<lparr> name = ''broken.wav'', wav = None \<rparr>,
      \<lparr> name = ''snare.wav'', wav = Some (Mono [1, 0]) \<rparr>] 4096 [''old'']
   = (Inl DecodeError, [''old''])"
proof -
  let ?files = "[\<lparr> name = ''kick.wav'', wav = Some (Mono [- 1, 0, 1]) \<rparr>,
      \<lparr> name = ''broken.wav'', wav = None \<rparr>,
      \<lparr> name = ''snare.wav'', wav = Some (Mono [1, 0]) \<rparr>]"
  have "\<exists>f\<in>set ?files. wav f = None" by simp
  from undecodable_file_aborts_batch [OF this, of exact_mean exact 4096 "[''old'']"]
  obtain e where e: "convert_wavs_to_header exact_mean exact ?files 4096 [''old''] = (Inl e, [''old''])"
    by blast
  have "fst (convert_wavs_to_header exact_mean exact ?files 4096 [''old'']) = Inl DecodeError"
    by code_simp
  with e show ?thesis by simp
qed

subsection \<open>C7: the count, the indices and the sizes of the manifest\<close>

lemma length_to_mono: "length (to_mono np_mean d) = frame_count d"
  by (cases d) (simp_all add: to_mono_def mean_axis1_def frame_count_def)

lemma quantize_length: "quantize np_mean rnd res d = Inr sc \<Longrightarrow> length sc = frame_count d"
  using quantize_Inr_scaled [of np_mean rnd res d sc] by (auto simp: scaled_def length_to_mono)

lemma loop_body_Inr:
  assumes "loop_body np_mean rnd res st f = Inr st'"
  shows "sample_index st' = Suc (sample_index st)"
    and "sample_definitions st' = sample_definitions st
           @ [sample_definition (sample_index st) (array_name f) (file_frames f)]"
    and "length (array_blocks st') = Suc (length (array_blocks st))"
  using assms
  by (auto simp: loop_body_def wavfile_read_def file_frames_def quantize_length
      split: option.splits sum.splits)

text \<open>The loop invariant: entries are appended in input order, numbered from the running index.\<close>

lemma for_files_manifest:
  "for_files np_mean rnd res files st = Inr st' \<Longrightarrow>
     sample_definitions st' = sample_definitions st
       @ map2 (\<lambda>i f. sample_definition i (array_name f) (file_frames f))
           [sample_index st ..< sample_index st + length files] files
     \<and> length (array_blocks st') = length (array_blocks st) + length files"
proof (induction files arbitrary: st)
  case Nil
  then show ?case by simp
next
  case (Cons f files)
  from Cons.prems obtain st1 where b: "loop_body np_mean rnd res st f = Inr st1"
    and r: "for_files np_mean rnd res files st1 = Inr st'"
    by (auto split: sum.splits)
  note l = loop_body_Inr [OF b]
  have u: "[sample_index st ..< Suc (sample_index st + length files)]
             = sample_index st # [Suc (sample_index st) ..< Suc (sample_index st + length files)]"
    by (rule upt_conv_Cons) simp
  show ?case
    using Cons.IH [OF r] l by (simp add: u del: upt_Suc)
qed

lemma two_file_header:
  "header_output exact_mean exact
     [\<lparr> name = ''/tmp/My Drum Loop.wav'', wav = Some (Mono [- 1, 0, 1]) \<rparr>,
      \<lparr> name = ''hat.wav'', wav = Some (Multi [[1, - 1], [- 1, 1]]) \<rparr>] 4096
   = Inr (''#define NUM_SAMPLES 2'' @ NL @ NL @ struct_lines @
          ''SampleData sample[NUM_SAMPLES] = {'' @ NL @
          ''    { 0, &My_Drum_Loop[0], 3, '' @ DQUOTE @ ''My_Drum_Loop'' @ DQUOTE @ '' },'' @ NL @
          ''    { 1, &hat[0], 2, '' @ DQUOTE @ ''hat'' @ DQUOTE @ '' },'' @ NL @
          ''};'' @ NL @ NL @
          ''const int16_t My_Drum_Loop[] PROGMEM = {'' @ NL @
          ''0, 2047, 4095'' @ NL @
          ''};'' @ NL @ NL @
          ''const int16_t hat[] PROGMEM = {'' @ NL @
          ''2047, 2047'' @ NL @
          ''};'' @ NL)"
  by code_simp

text \<open>
  C7. Whenever the conversion of \<open>N\<close> files succeeds, the text starts with
  \<open>#define NUM_SAMPLES N\<close>; the manifest has one entry per file, in input order, the entry of
  the \<open>i\<close>-th file (from 0) carrying the index \<open>i\<close> and, as its size, the frame count of
  that file's decoded audio; and \<open>N\<close> array blocks follow.
\<close>

theorem manifest_counts_and_indices:
  assumes "header_output np_mean rnd files pwm_resolution = Inr text"
  shows "\<exists>blocks. length blocks = length files \<and>
           text = ''#define NUM_SAMPLES '' @ str_nat (length files) @ NL @ NL @ struct_lines
             @ sample_def_block
                 (map2 (\<lambda>i f. sample_definition i (array_name f) (file_frames f))
                    [0 ..< length files] files)
             @ join NL blocks"
proof -
  from assms obtain st where
    f: "for_files np_mean rnd pwm_resolution files
          \<lparr> array_blocks = [], sample_definitions = [], sample_index = 0 \<rparr> = Inr st"
    and t: "text = concat (header_lines files) @ sample_def_block (sample_definitions st)
              @ join NL (array_blocks st)"
    by (auto simp: header_output_def split: sum.splits)
  from for_files_manifest [OF f]
  have "sample_definitions st = map2 (\<lambda>i f. sample_definition i (array_name f) (file_frames f))
           [0 ..< length files] files"
    and "length (array_blocks st) = length files"
    by simp_all
  with t show ?thesis
    by (intro exI [of _ "array_blocks st"]) (simp add: header_lines_def)
qed

theorem manifest_counts_and_indices_witness:
  "\<exists>blocks. length blocks = length
       [\<lparr> name = ''/tmp/My Drum Loop.wav'', wav = Some (Mono [- 1, 0, 1]) \<rparr>,
      \<lparr> name = ''hat.wav'', wav = Some (Multi [[1, - 1], [- 1, 1]]) \<rparr>] \<and>
     ''#define NUM_SAMPLES 2'' @ NL @ NL @ struct_lines @
          ''SampleData sample[NUM_SAMPLES] = {'' @ NL @
          ''    { 0, &My_Drum_Loop[0], 3, '' @ DQUOTE @ ''My_Drum_Loop'' @ DQUOTE @ '' },'' @ NL @
          ''    { 1, &hat[0], 2, '' @ DQUOTE @ ''hat'' @ DQUOTE @ '' },'' @ NL @
          ''};'' @ NL @ NL @
          ''const int16_t My_Drum_Loop[] PROGMEM = {'' @ NL @
          ''0, 2047, 4095'' @ NL @
          ''};'' @ NL @ NL @
          ''const int16_t hat[] PROGMEM = {'' @ NL @
          ''2047, 2047'' @ NL @
          ''};'' @ NL
     = ''#define NUM_SAMPLES '' @ str_nat (length
       [\<lparr> name = ''/tmp/My Drum Loop.wav'', wav = Some (Mono [- 1, 0, 1]) \<rparr>,
      \<lparr> name = ''hat.wav'', wav = Some (Multi [[1, - 1], [- 1, 1]]) \<rparr>]) @ NL @ NL @ struct_lines
       @ sample_def_block
           (map2 (\<lambda>i f. sample_definition i (array_name f) (file_frames f))
              [0 ..< length
       [\<lparr> name = ''/tmp/My Drum Loop.wav'', wav = Some (Mono [- 1, 0, 1]) \<rparr>,
      \<lparr> name = ''hat.wav'', wav = Some (Multi [[1, - 1], [- 1, 1]]) \<rparr>]]
       [\<lparr> name = ''/tmp/My Drum Loop.wav'', wav = Some (Mono [- 1, 0, 1]) \<rparr>,
      \<lparr> name = ''hat.wav'', wav = Some (Multi [[1, - 1], [- 1, 1]]) \<rparr>])
       @ join NL blocks"
  using manifest_counts_and_indices [OF two_file_header] .

subsection \<open>C2: the line break inside an array literal\<close>

lemma slices10_two_rows:
  assumes "10 < length xs"
  shows "\<exists>row rows. slices10 xs = take 10 xs # ((xs ! 10) # row) # rows"
proof -
  have a: "xs \<noteq> []" and b: "drop 10 xs \<noteq> []" using assms by auto
  have "drop 10 xs = xs ! 10 # drop 11 xs"
    using assms Cons_nth_drop_Suc [of 10 xs] by simp
  then have "take 10 (drop 10 xs) = xs ! 10 # take 9 (drop 11 xs)" by simp
  then have "slices10 (drop 10 xs) = (xs ! 10 # take 9 (drop 11 xs)) # slices10 (drop 10 (drop 10 xs))"
    using b slices10.simps [of "drop 10 xs"] by simp
  then show ?thesis
    using a slices10.simps [of xs] by simp
qed

lemma join_values_Cons: "\<exists>r. join '', '' (map str_int16 (v # vs)) = str_int16 v @ r"
  by (cases vs) simp_all

lemma join_three:
  "ds \<noteq> [] \<Longrightarrow> join sep (a # b # c # ds) = a @ sep @ b @ sep @ c @ sep @ join sep ds"
  by (cases ds) simp_all

lemma join_snoc: "xs \<noteq> [] \<Longrightarrow> join sep (xs @ [x]) = join sep xs @ sep @ x"
  by (induction sep xs rule: join.induct) simp_all

lemma first_row_ends_with_tenth:
  assumes "10 < length sc"
  shows "join '', '' (map str_int16 (take 10 sc))
           = join '', '' (map str_int16 (take 9 sc)) @ '', '' @ str_int16 (sc ! 9)"
proof -
  have "take (Suc 9) sc = take 9 sc @ [sc ! 9]"
    using assms by (intro take_Suc_conv_app_nth) simp
  then have "take 10 sc = take 9 sc @ [sc ! 9]" by simp
  moreover have "map str_int16 (take 9 sc) \<noteq> []" using assms by auto
  ultimately show ?thesis by (simp add: join_snoc)
qed

text \<open>
  C2 says that every two consecutive values of an array literal are separated by a comma,
  also the tenth value of a line and the first of the next. The source joins the values of a
  line with a comma and a space, and the lines with a bare newline. So for every file of more
  than 10 frames the text of the array has the tenth value, a newline and the eleventh
  value, with no comma between them.
\<close>

theorem line_break_without_comma:
  assumes "10 < length sc"
  shows "\<exists>rest. array_block nm sc =
           ''const int16_t '' @ nm @ ''[] PROGMEM = {'' @ NL
           @ join '', '' (map str_int16 (take 9 sc)) @ '', '' @ str_int16 (sc ! 9) @ NL
           @ str_int16 (sc ! 10) @ rest"
proof -
  obtain row rows where s: "slices10 sc = take 10 sc # ((sc ! 10) # row) # rows"
    using slices10_two_rows [OF assms] by blast
  obtain r where r: "join '', '' (map str_int16 ((sc ! 10) # row)) = str_int16 (sc ! 10) @ r"
    using join_values_Cons by blast
  let ?ds = "map (\<lambda>row. join '', '' (map str_int16 row)) rows @ [''};'' @ NL]"
  have "array_block nm sc =
          join NL ((''const int16_t '' @ nm @ ''[] PROGMEM = {'')
                   # join '', '' (map str_int16 (take 10 sc))
                   # join '', '' (map str_int16 ((sc ! 10) # row)) # ?ds)"
    by (simp add: array_block_def s)
  also have "\<dots> = (''const int16_t '' @ nm @ ''[] PROGMEM = {'') @ NL
                   @ join '', '' (map str_int16 (take 10 sc)) @ NL
                   @ join '', '' (map str_int16 ((sc ! 10) # row)) @ NL @ join NL ?ds"
    by (rule join_three) simp
  finally show ?thesis
    unfolding r first_row_ends_with_tenth [OF assms] by simp
qed

theorem line_break_without_comma_witness:
  "\<exists>rest. array_block ''ramp'' [0, 255, 511, 767, 1023, 1279, 1535, 1791, 2047, 2303, 2559] =
           ''const int16_t ramp[] PROGMEM = {'' @ NL
           @ ''0, 255, 511, 767, 1023, 1279, 1535, 1791, 2047, 2303'' @ NL
           @ ''2559'' @ rest"
proof -
  let ?sc = "[0, 255, 511, 767, 1023, 1279, 1535, 1791, 2047, 2303, 2559] :: 16 word list"
  have l: "10 < length ?sc" by simp
  have a: "join '', '' (map str_int16 (take 9 ?sc)) @ '', '' @ str_int16 (?sc ! 9)
             = ''0, 255, 511, 767, 1023, 1279, 1535, 1791, 2047, 2303''"
    by code_simp
  have b: "str_int16 (?sc ! 10) = ''2559''" by code_simp
  from line_break_without_comma [OF l, of "''ramp''"]
  obtain rest where "array_block ''ramp'' ?sc =
           ''const int16_t '' @ ''ramp'' @ ''[] PROGMEM = {'' @ NL
           @ (join '', '' (map str_int16 (take 9 ?sc)) @ '', '' @ str_int16 (?sc ! 9)) @ NL
           @ str_int16 (?sc ! 10) @ rest"
    by auto
  then have "array_block ''ramp'' ?sc =
           ''const int16_t ramp[] PROGMEM = {'' @ NL
           @ ''0, 255, 511, 767, 1023, 1279, 1535, 1791, 2047, 2303'' @ NL
           @ ''2559'' @ rest"
    unfolding a b by simp
  then show ?thesis by blast
qed

text \<open>
  The whole header of a file of 11 frames at the default resolution; every \<open>float32\<close>
  operation on this input is exact.
\<close>

lemma eleven_frame_header:
  "header_output exact_mean exact
     [\<lparr> name = ''ramp.wav'',
        wav = Some (Mono [- 8, - 7, - 6, - 5, - 4, - 3, - 2, - 1, 0, 1, 2]) \<rparr>] 4096
   = Inr (''#define NUM_SAMPLES 1'' @ NL @ NL @ struct_lines @
          ''SampleData sample[NUM_SAMPLES] = {'' @ NL @
          ''    { 0, &ramp[0], 11, '' @ DQUOTE @ ''ramp'' @ DQUOTE @ '' },'' @ NL @
          ''};'' @ NL @ NL @
          ''const int16_t ramp[] PROGMEM = {'' @ NL @
          ''0, 255, 511, 767, 1023, 1279, 1535, 1791, 2047, 2303'' @ NL @
          ''2559'' @ NL @
          ''};'' @ NL)"
  by code_simp

end
